theory Spec2Isabelle
  imports Main "HOL-Library.Sublist" "HOL-Library.Multiset"
begin

section \<open>Data model\<close>

text \<open>
  The configuration is the object that \<^verbatim>\<open>yaml.parse\<close> returns. Every section and every
  option may be missing, so each one is an \<open>option\<close>: \<open>None\<close> is JavaScript's
  \<^verbatim>\<open>undefined\<close>. A JavaScript object whose keys matter in order (\<^verbatim>\<open>Object.entries\<close>,
  \<^verbatim>\<open>Object.keys\<close>) is an association list in that order; a property read
  \<^verbatim>\<open>obj[key]\<close> is \<open>map_of\<close>. Reviewer identifiers, group names, glob patterns and
  titles are strings.
\<close>

record config_options =
  enable_group_assignment :: "bool option"
  ignore_draft :: "bool option"
  ignored_keywords :: "string list option"
  exclude :: "string list option"
  number_of_reviewers :: "int option"
  load_github_members :: "bool option"
  force_pick :: "bool option"

record config_reviewers =
  defaults :: "string list option"
  per_author :: "(string \<times> string list) list option"
  groups :: "(string \<times> string list) list option"

record config =
  options :: "config_options option"
  reviewers :: "config_reviewers option"
  files :: "(string \<times> string list) list option"

text \<open>
  \<^verbatim>\<open>{ ...config.options }.key\<close>: spreading \<^verbatim>\<open>undefined\<close> contributes no property, so the
  key is undefined when the \<^verbatim>\<open>options\<close> section is missing or does not have it.
\<close>

definition option_of :: "(config_options \<Rightarrow> 'a option) \<Rightarrow> config \<Rightarrow> 'a option" where
  "option_of key config = (case options config of None \<Rightarrow> None | Some os \<Rightarrow> key os)"

text \<open>\<^verbatim>\<open>{ ...DEFAULT_OPTIONS, ...config.options }.key\<close>: a configured value overrides the default.\<close>

definition with_default :: "'a \<Rightarrow> 'a option \<Rightarrow> 'a" where
  "with_default d v = (case v of None \<Rightarrow> d | Some x \<Rightarrow> x)"

text \<open>\<^verbatim>\<open>(config.reviewers && config.reviewers.groups) || {}\<close>\<close>

definition groups_of :: "config \<Rightarrow> (string \<times> string list) list" where
  "groups_of config =
     (case reviewers config of
        None \<Rightarrow> []
      | Some rs \<Rightarrow> (case groups rs of None \<Rightarrow> [] | Some gs \<Rightarrow> gs))"

section \<open>JavaScript library functions\<close>

text \<open>
  \<^verbatim>\<open>[ ...new Set(xs) ]\<close>: a Set keeps its elements in insertion order, so the first
  occurrence of each element survives, in the order of the first occurrences.
\<close>

primrec set_add_all :: "'a list \<Rightarrow> 'a list \<Rightarrow> 'a list" where
  "set_add_all seen [] = seen"
| "set_add_all seen (x # xs) = set_add_all (if x \<in> set seen then seen else seen @ [x]) xs"

definition new_Set :: "'a list \<Rightarrow> 'a list" where
  "new_Set xs = set_add_all [] xs"

text \<open>\<^verbatim>\<open>s.startsWith(p)\<close>, \<^verbatim>\<open>s.includes(k)\<close> and \<^verbatim>\<open>s.replace(p, r)\<close> for a string pattern
  (the first occurrence only is replaced).\<close>

definition startsWith :: "string \<Rightarrow> string \<Rightarrow> bool" where
  "startsWith s p = (take (length p) s = p)"

fun str_includes :: "string \<Rightarrow> string \<Rightarrow> bool" where
  "str_includes [] k = (k = [])"
| "str_includes (c # cs) k = (startsWith (c # cs) k \<or> str_includes cs k)"

fun str_replace :: "string \<Rightarrow> string \<Rightarrow> string \<Rightarrow> string" where
  "str_replace [] p r = (if p = [] then r else [])"
| "str_replace (c # cs) p r =
     (if startsWith (c # cs) p then r @ drop (length p) (c # cs)
      else c # str_replace cs p r)"

section \<open>Group resolution\<close>

text \<open>
  \<^verbatim>\<open>reviewers.flatMap((reviewer) => Array.isArray(groups[reviewer]) ? groups[reviewer] : reviewer)\<close>
\<close>

definition replace_groups_with_individuals :: "string list \<Rightarrow> config \<Rightarrow> string list" where
  "replace_groups_with_individuals revs config =
     (let grps = groups_of config in
      concat (map (\<lambda>reviewer.
        case map_of grps reviewer of Some members \<Rightarrow> members | None \<Rightarrow> [reviewer]) revs))"

section \<open>Exclusion and deduplication\<close>

text \<open>\<^verbatim>\<open>[ ...new Set(reviewers) ].filter((reviewer) => !excludes.includes(reviewer))\<close>\<close>

definition exclude_reviewers :: "string list \<Rightarrow> string list \<Rightarrow> string list" where
  "exclude_reviewers revs excludes =
     filter (\<lambda>reviewer. reviewer \<notin> set excludes) (new_Set revs)"

text \<open>\<^verbatim>\<open>exclude || []\<close> is resolved through the groups, then removed from the candidates.\<close>

definition filter_excluded_reviewers :: "string list \<Rightarrow> config \<Rightarrow> string list" where
  "filter_excluded_reviewers revs config =
     (let excluded_individuals =
            replace_groups_with_individuals (with_default [] (option_of exclude config)) config
      in exclude_reviewers revs excluded_individuals)"

section \<open>Candidate sources\<close>

text \<open>
  \<^verbatim>\<open>fetch_default_reviewers({ config, excludes = [] })\<close>: \<open>defaults\<close> is \<open>None\<close> when the key
  is missing or is not an array. The caller supplies \<open>excludes\<close>.
\<close>

definition fetch_default_reviewers :: "config \<Rightarrow> string list \<Rightarrow> string list" where
  "fetch_default_reviewers config excludes =
     (case reviewers config of
        None \<Rightarrow> []
      | Some rs \<Rightarrow>
          (case defaults rs of
             None \<Rightarrow> []
           | Some ds \<Rightarrow>
               exclude_reviewers (replace_groups_with_individuals ds config) excludes))"

text \<open>
  \<^verbatim>\<open>identify_reviewers_by_changed_files({ config, changed_files, excludes = [] })\<close>. The glob
  matcher \<^verbatim>\<open>minimatch(changed_file, glob_pattern)\<close> is a library function and is a
  parameter here.
\<close>

definition identify_reviewers_by_changed_files ::
    "(string \<Rightarrow> string \<Rightarrow> bool) \<Rightarrow> config \<Rightarrow> string list \<Rightarrow> string list \<Rightarrow> string list" where
  "identify_reviewers_by_changed_files minimatch config changed_files excludes =
     (case files config of
        None \<Rightarrow> []
      | Some fs \<Rightarrow>
          (let matching_reviewers =
                 concat (map (\<lambda>(glob_pattern, revs).
                   if list_ex (\<lambda>changed_file. minimatch changed_file glob_pattern) changed_files
                   then revs else []) fs);
               individuals = replace_groups_with_individuals matching_reviewers config
           in exclude_reviewers individuals excludes))"

text \<open>
  \<^verbatim>\<open>identify_reviewers_by_author({ config, author })\<close>: a key of \<^verbatim>\<open>per_author\<close> matches
  when it is the author or a group that has the author;
  \<^verbatim>\<open>config.reviewers.per_author[matching_author] || []\<close> is the \<open>map_of\<close> lookup.
\<close>

definition identify_reviewers_by_author :: "config \<Rightarrow> string \<Rightarrow> string list" where
  "identify_reviewers_by_author config specified_author =
     (case reviewers config of
        None \<Rightarrow> []
      | Some rs \<Rightarrow>
          (case per_author rs of
             None \<Rightarrow> []
           | Some pa \<Rightarrow>
               (let matching_authors =
                      filter (\<lambda>author.
                        author = specified_author
                        \<or> specified_author \<in> set (replace_groups_with_individuals [author] config))
                        (map fst pa);
                    matching_reviewers =
                      concat (map (\<lambda>matching_author.
                        replace_groups_with_individuals
                          (case map_of pa matching_author of Some revs \<Rightarrow> revs | None \<Rightarrow> [])
                          config) matching_authors)
                in filter (\<lambda>reviewer. reviewer \<noteq> specified_author) matching_reviewers)))"

text \<open>
  \<^verbatim>\<open>fetch_other_group_members({ author, config })\<close>. The map over the entries yields the
  group name or \<^verbatim>\<open>undefined\<close>, and the filter keeps the truthy results, so a group named
  by the empty string is dropped as well. \<^verbatim>\<open>groups[group_name]\<close> is read for names taken
  from the entries only, so the lookup always finds a member list.
\<close>

definition fetch_other_group_members :: "string \<Rightarrow> config \<Rightarrow> string list" where
  "fetch_other_group_members author config =
     (if \<not> with_default False (option_of enable_group_assignment config) then []
      else
        (let grps = groups_of config;
             marked = map (\<lambda>(group_name, members).
                        if author \<in> set members then Some group_name else None) grps;
             belonging_group_names =
               concat (map (\<lambda>m. case m of Some n \<Rightarrow> (if n \<noteq> [] then [n] else []) | None \<Rightarrow> [])
                 marked);
             other_group_members =
               filter (\<lambda>group_member. group_member \<noteq> author)
                 (concat (map (\<lambda>group_name.
                    case map_of grps group_name of Some members \<Rightarrow> members | None \<Rightarrow> [])
                    belonging_group_names))
         in new_Set other_group_members))"

section \<open>Eligibility: the decision\<close>

definition should_request_review :: "string \<Rightarrow> bool \<Rightarrow> config \<Rightarrow> bool" where
  "should_request_review title is_draft config =
     (let should_ignore_draft = with_default True (option_of ignore_draft config);
          keywords = with_default [''DO NOT REVIEW''] (option_of ignored_keywords config)
      in if should_ignore_draft \<and> is_draft then False
         else \<not> list_ex (\<lambda>keyword. str_includes title keyword) keywords)"

section \<open>Sampling\<close>

text \<open>
  Modelled from the spec: \<^verbatim>\<open>lodash/sampleSize\<close>, a dependency whose code is not part of
  the sources. Section 4.7 asks for a random subset of the requested size drawn without
  replacement, and for the whole pool when the pool is smaller. The model is the
  library's partial Fisher-Yates shuffle: the size is clamped to \<open>0 .. length array\<close>,
  position \<open>index\<close> is swapped with a random position \<open>rand\<close> in
  \<open>index .. length array - 1\<close> for every \<open>index\<close> below the size, and the array is cut
  to the size. The random source is the parameter \<open>rng\<close>: its value at \<open>index\<close> is the
  draw of that iteration, reduced to the range.
\<close>

definition base_random :: "(nat \<Rightarrow> nat) \<Rightarrow> nat \<Rightarrow> nat \<Rightarrow> nat" where
  "base_random rng lower upper = lower + rng lower mod (upper - lower + 1)"

function shuffle_loop :: "(nat \<Rightarrow> nat) \<Rightarrow> 'a list \<Rightarrow> nat \<Rightarrow> nat \<Rightarrow> 'a list" where
  "shuffle_loop rng array index sz =
     (if index < sz then
        (let rand = base_random rng index (length array - 1);
             val = array ! rand
         in shuffle_loop rng (array[rand := array ! index, index := val]) (Suc index) sz)
      else array)"
  by pat_completeness auto
termination
  by (relation "measure (\<lambda>(rng, array, index, sz). sz - index)") auto

definition shuffle_self :: "(nat \<Rightarrow> nat) \<Rightarrow> 'a list \<Rightarrow> nat \<Rightarrow> 'a list" where
  "shuffle_self rng array sz = take sz (shuffle_loop rng array 0 sz)"

definition base_clamp :: "int \<Rightarrow> int \<Rightarrow> int \<Rightarrow> int" where
  "base_clamp number lower upper =
     (let n = (if number \<le> upper then number else upper)
      in if n \<ge> lower then n else lower)"

definition sample_size :: "(nat \<Rightarrow> nat) \<Rightarrow> 'a list \<Rightarrow> int \<Rightarrow> 'a list" where
  "sample_size rng array n = shuffle_self rng array (nat (base_clamp n 0 (int (length array))))"

text \<open>\<^verbatim>\<open>randomly_pick_reviewers({ reviewers, config })\<close>\<close>

definition randomly_pick_reviewers :: "(nat \<Rightarrow> nat) \<Rightarrow> 'a list \<Rightarrow> config \<Rightarrow> 'a list" where
  "randomly_pick_reviewers rng revs config =
     (case option_of number_of_reviewers config of
        None \<Rightarrow> revs
      | Some n \<Rightarrow> sample_size rng revs n)"

section \<open>The GitHub collaborator\<close>

text \<open>
  A failed request throws an error that carries the HTTP status, when there is one; a
  method call on \<^verbatim>\<open>undefined\<close> throws a \<^verbatim>\<open>TypeError\<close>, which has no status.
\<close>

datatype error = Request_error "nat option" | Type_error

fun status :: "error \<Rightarrow> nat option" where
  "status (Request_error s) = s"
| "status Type_error = None"

text \<open>
  The two queries of the client, with the response body already mapped to the logins,
  and the repository owner of the run context.
\<close>

record octokit =
  repo_owner :: string
  listMembersInOrg :: "string \<Rightarrow> error + string list"
  listRequestedReviewers :: "error + string list"

datatype log_entry = Info string | Warning string

text \<open>What \<^verbatim>\<open>list_team_members\<close> resolves to: a list of logins, or \<^verbatim>\<open>undefined\<close>.\<close>

datatype roster = No_roster | Roster "string list"

text \<open>
  \<^verbatim>\<open>list_team_members(team)\<close>: returns the lines it logs and its result. The
  \<^verbatim>\<open>catch\<close> block returns the empty list on status 404 and has no other
  \<^verbatim>\<open>return\<close>, so every other error ends the function with \<^verbatim>\<open>undefined\<close>.
\<close>

definition list_team_members :: "octokit \<Rightarrow> string \<Rightarrow> log_entry list \<times> roster" where
  "list_team_members api team =
     (let listing = Info (''Org:'' @ repo_owner api @ ''. Listing team members for team '' @ team)
      in case listMembersInOrg api team of
           Inr logins \<Rightarrow> ([listing], Roster logins)
         | Inl err \<Rightarrow>
             if status err = Some 404 then ([listing, Warning ''No team was found''], Roster [])
             else ([listing], No_roster))"

text \<open>\<^verbatim>\<open>list_requested_reviewers()\<close> has no handler: an error of the query propagates.\<close>

definition list_requested_reviewers :: "octokit \<Rightarrow> error + string list" where
  "list_requested_reviewers api = listRequestedReviewers api"

section \<open>Live reconciliation\<close>

text \<open>
  An element of the reviewer array after team resolution: a string, or \<^verbatim>\<open>undefined\<close>
  (which \<^verbatim>\<open>flat()\<close> leaves in place where a roster is \<^verbatim>\<open>undefined\<close>).
\<close>

datatype jstr = Undefined | Str string

text \<open>
  \<^verbatim>\<open>team_members.filter((members) => members.includes(author))\<close>: the callback runs on
  every roster in order, and \<^verbatim>\<open>members.includes\<close> on \<^verbatim>\<open>undefined\<close> throws.
\<close>

fun filter_includes_author :: "string \<Rightarrow> roster list \<Rightarrow> error + roster list" where
  "filter_includes_author author [] = Inr []"
| "filter_includes_author author (No_roster # rest) = Inl Type_error"
| "filter_includes_author author (Roster members # rest) =
     (case filter_includes_author author rest of
        Inl e \<Rightarrow> Inl e
      | Inr kept \<Rightarrow> Inr (if author \<in> set members then Roster members # kept else kept))"

text \<open>\<^verbatim>\<open>team_members.flat()\<close>: one level; an element that is not an array stays.\<close>

fun flat :: "roster list \<Rightarrow> jstr list" where
  "flat [] = []"
| "flat (No_roster # rest) = Undefined # flat rest"
| "flat (Roster members # rest) = map Str members @ flat rest"

text \<open>
  \<^verbatim>\<open>fetch_author_belongs_to_github_team_members({ reviewers, config, author })\<close>. The
  lines logged by the lookups are not part of its result and are dropped here.
\<close>

definition fetch_author_belongs_to_github_team_members ::
    "octokit \<Rightarrow> string list \<Rightarrow> config \<Rightarrow> string \<Rightarrow> error + jstr list" where
  "fetch_author_belongs_to_github_team_members api revs config author =
     (case option_of load_github_members config of
        None \<Rightarrow> Inr (map Str revs)
      | Some _ \<Rightarrow>
          (let (teams_with_prefix, individuals) =
                 partition (\<lambda>reviewer. startsWith reviewer ''team:'') revs;
               teams = map (\<lambda>team_with_prefix. str_replace team_with_prefix ''team:'' [])
                         teams_with_prefix;
               team_members = map (\<lambda>team. snd (list_team_members api team)) teams;
               filtered =
                 (if \<not> with_default False (option_of force_pick config)
                  then filter_includes_author author team_members
                  else Inr team_members)
           in case filtered of
                Inl e \<Rightarrow> Inl e
              | Inr kept \<Rightarrow>
                  Inr (new_Set (map Str individuals
                                @ filter (\<lambda>member. member \<noteq> Str author) (flat kept)))))"

text \<open>\<^verbatim>\<open>filter_already_requested_reviewers({ reviewers, config })\<close>\<close>

definition filter_already_requested_reviewers ::
    "octokit \<Rightarrow> jstr list \<Rightarrow> config \<Rightarrow> error + jstr list" where
  "filter_already_requested_reviewers api revs config =
     (case option_of load_github_members config of
        None \<Rightarrow> Inr revs
      | Some _ \<Rightarrow>
          (case list_requested_reviewers api of
             Inl e \<Rightarrow> Inl e
           | Inr requested_reviewers \<Rightarrow>
               Inr (filter (\<lambda>reviewer. reviewer \<notin> Str ` set requested_reviewers) revs)))"

text \<open>
  The slugs that \<^verbatim>\<open>fetch_author_belongs_to_github_team_members\<close> looks up: its
  \<^verbatim>\<open>teams\<close>, the entries that start with the prefix, with the prefix replaced by the
  empty string.
\<close>

definition team_slugs :: "string list \<Rightarrow> string list" where
  "team_slugs revs =
     map (\<lambda>team_with_prefix. str_replace team_with_prefix ''team:'' [])
       (filter (\<lambda>reviewer. startsWith reviewer ''team:'') revs)"

section \<open>The pipeline\<close>

text \<open>
  Modelled from the spec: the entry point that composes the stages (\<^verbatim>\<open>index.js\<close>) is not
  among the sources. Section 2 gives the order: candidate collection from the default,
  path-matched and author-matched sources, group fan-out, then the merge with the global
  exclusion pass. Section 3 requires the author to be filtered at every stage that could
  bring them back, so the two sources that take an exclusion list are handed the author
  (left to their own default, the empty list, they would remove nobody); the other two
  remove the author themselves.
\<close>

definition candidate_reviewers ::
    "(string \<Rightarrow> string \<Rightarrow> bool) \<Rightarrow> config \<Rightarrow> string \<Rightarrow> string list \<Rightarrow> string list" where
  "candidate_reviewers minimatch config author changed_files =
     (let default_reviewers = fetch_default_reviewers config [author];
          reviewers_based_on_files =
            identify_reviewers_by_changed_files minimatch config changed_files [author];
          reviewers_based_on_author = identify_reviewers_by_author config author;
          reviewers_from_same_groups = fetch_other_group_members author config
      in filter_excluded_reviewers
           (default_reviewers @ reviewers_based_on_files @ reviewers_based_on_author
            @ reviewers_from_same_groups) config)"

text \<open>
  Modelled from the spec: the rest of the missing entry point. After the exclusion pass
  come sampling and the two stages of live reconciliation (section 2, stages 5 and 6);
  the result is what \<^verbatim>\<open>assign_reviewers\<close> receives.
\<close>

definition reviewers_to_assign ::
    "(nat \<Rightarrow> nat) \<Rightarrow> (string \<Rightarrow> string \<Rightarrow> bool) \<Rightarrow> octokit \<Rightarrow> config \<Rightarrow> string \<Rightarrow> string list
       \<Rightarrow> error + jstr list" where
  "reviewers_to_assign rng minimatch api config author changed_files =
     (let candidates = candidate_reviewers minimatch config author changed_files;
          picked = randomly_pick_reviewers rng candidates config
      in case fetch_author_belongs_to_github_team_members api picked config author of
           Inl e \<Rightarrow> Inl e
         | Inr resolved \<Rightarrow> filter_already_requested_reviewers api resolved config)"

section \<open>Example inputs\<close>

definition example_options :: config_options where
  "example_options =
     \<lparr> enable_group_assignment = Some True, ignore_draft = None, ignored_keywords = None,
       exclude = Some [''backend''], number_of_reviewers = Some 2,
       load_github_members = Some False, force_pick = None \<rparr>"

definition example_config :: config where
  "example_config =
     \<lparr> options = Some example_options,
       reviewers = Some
         \<lparr> defaults = Some [''alice'', ''backend'', ''zed''],
           per_author = Some [(''backend'', [''dan'', ''bob''])],
           groups = Some [(''backend'', [''bob'', ''carol'']), (''front'', [''alice'', ''erin''])] \<rparr>,
       files = Some [(''*.md'', [''alice'', ''frank''])] \<rparr>"

definition failing_api :: octokit where
  "failing_api =
     \<lparr> repo_owner = ''org'',
       listMembersInOrg = (\<lambda>team.
         if team = ''infra'' then Inr [''bob'']
         else if team = ''gone'' then Inl (Request_error (Some 404))
         else Inl (Request_error (Some 500))),
       listRequestedReviewers = Inr [''alice''] \<rparr>"

definition force_pick_config :: config where
  "force_pick_config =
     example_config\<lparr>options := Some (example_options\<lparr>force_pick := Some True\<rparr>)\<rparr>"

definition nested_config :: config where
  "nested_config =
     \<lparr> options = None,
       reviewers = Some
         \<lparr> defaults = None, per_author = None,
           groups = Some [(''leads'', [''backend'']), (''backend'', [''bob'', ''carol''])] \<rparr>,
       files = None \<rparr>"

section \<open>Library functions: facts\<close>

lemma set_set_add_all: "set (set_add_all seen xs) = set seen \<union> set xs"
  by (induction xs arbitrary: seen) auto

lemma distinct_set_add_all: "distinct seen \<Longrightarrow> distinct (set_add_all seen xs)"
  by (induction xs arbitrary: seen) auto

lemma set_add_all_distinct: "distinct (seen @ xs) \<Longrightarrow> set_add_all seen xs = seen @ xs"
  by (induction xs arbitrary: seen) auto

lemma set_new_Set: "set (new_Set xs) = set xs"
  by (simp add: new_Set_def set_set_add_all)

lemma distinct_new_Set: "distinct (new_Set xs)"
  by (simp add: new_Set_def distinct_set_add_all)

lemma new_Set_distinct: "distinct xs \<Longrightarrow> new_Set xs = xs"
  by (simp add: new_Set_def set_add_all_distinct)

lemma startsWith_prefix: "startsWith s p \<longleftrightarrow> prefix p s"
proof
  assume "startsWith s p"
  then have "s = p @ drop (length p) s"
    by (metis startsWith_def append_take_drop_id)
  then show "prefix p s" by (metis prefixI)
next
  assume "prefix p s"
  then show "startsWith s p" by (auto simp: prefix_def startsWith_def)
qed

lemma str_includes_sublist: "str_includes s k \<longleftrightarrow> sublist k s"
  by (induction s) (simp_all add: startsWith_prefix sublist_Cons_right)

lemma str_replace_prefix: "startsWith s p \<Longrightarrow> str_replace s p r = r @ drop (length p) s"
  by (cases s) (auto simp: startsWith_def)

section \<open>Properties of group resolution\<close>

lemma replace_groups_Nil: "replace_groups_with_individuals [] config = []"
  by (simp add: replace_groups_with_individuals_def)

lemma replace_groups_Cons:
  "replace_groups_with_individuals (r # revs) config =
     (case map_of (groups_of config) r of Some members \<Rightarrow> members | None \<Rightarrow> [r])
       @ replace_groups_with_individuals revs config"
  by (simp add: replace_groups_with_individuals_def Let_def)

lemma replace_groups_no_group:
  "\<forall>r \<in> set revs. map_of (groups_of config) r = None \<Longrightarrow>
     replace_groups_with_individuals revs config = revs"
  by (induction revs) (simp_all add: replace_groups_Nil replace_groups_Cons)

lemma set_replace_groups:
  "set (replace_groups_with_individuals revs config) =
     {y. \<exists>r \<in> set revs.
           (case map_of (groups_of config) r of Some members \<Rightarrow> y \<in> set members | None \<Rightarrow> y = r)}"
  by (induction revs) (auto simp: replace_groups_Nil replace_groups_Cons split: option.splits)

lemma replace_groups_flat_groups:
  assumes "\<forall>(g, members) \<in> set (groups_of config). \<forall>m \<in> set members.
             m \<notin> fst ` set (groups_of config)"
  shows "replace_groups_with_individuals (replace_groups_with_individuals revs config) config
           = replace_groups_with_individuals revs config"
proof (rule replace_groups_no_group, rule ballI)
  fix y
  assume "y \<in> set (replace_groups_with_individuals revs config)"
  then obtain r where r: "r \<in> set revs"
    and y: "case map_of (groups_of config) r of Some members \<Rightarrow> y \<in> set members | None \<Rightarrow> y = r"
    by (auto simp: set_replace_groups)
  show "map_of (groups_of config) y = None"
  proof (cases "map_of (groups_of config) r")
    case None
    with y show ?thesis by simp
  next
    case (Some members)
    then have "(r, members) \<in> set (groups_of config)" by (rule map_of_SomeD)
    with assms have "\<forall>m \<in> set members. m \<notin> fst ` set (groups_of config)" by fast
    with y Some have "y \<notin> fst ` set (groups_of config)" by simp
    then show ?thesis by (simp add: map_of_eq_None_iff)
  qed
qed

lemma replace_groups_one_level_only:
  "replace_groups_with_individuals [''leads''] nested_config = [''backend'']
   \<and> replace_groups_with_individuals [''backend''] nested_config = [''bob'', ''carol'']"
  by (simp add: replace_groups_with_individuals_def groups_of_def nested_config_def)

text \<open>
  C8. Group expansion is idempotent on individuals: a list none of whose identifiers is a
  key of \<^verbatim>\<open>reviewers.groups\<close> is returned unchanged, so expanding the output once more
  gives the same list again. Expansion is one level deep, so for an arbitrary list the
  second expansion changes nothing whenever no member of a group is itself a key of
  \<^verbatim>\<open>reviewers.groups\<close>, which is what the data model assumes of groups.
\<close>

theorem replace_groups_idempotent:
  "((\<forall>r \<in> set revs. r \<notin> fst ` set (groups_of config)) \<longrightarrow>
      replace_groups_with_individuals revs config = revs
      \<and> replace_groups_with_individuals (replace_groups_with_individuals revs config) config
          = replace_groups_with_individuals revs config)
   \<and> ((\<forall>(g, members) \<in> set (groups_of config). \<forall>m \<in> set members.
          m \<notin> fst ` set (groups_of config)) \<longrightarrow>
       replace_groups_with_individuals (replace_groups_with_individuals revs config) config
         = replace_groups_with_individuals revs config)"
proof (intro conjI impI)
  assume "\<forall>r \<in> set revs. r \<notin> fst ` set (groups_of config)"
  then have "\<forall>r \<in> set revs. map_of (groups_of config) r = None"
    by (simp add: map_of_eq_None_iff)
  then have once: "replace_groups_with_individuals revs config = revs"
    by (rule replace_groups_no_group)
  then show "replace_groups_with_individuals revs config = revs"
    and "replace_groups_with_individuals (replace_groups_with_individuals revs config) config
          = replace_groups_with_individuals revs config"
    by simp_all
next
  assume "\<forall>(g, members) \<in> set (groups_of config). \<forall>m \<in> set members.
          m \<notin> fst ` set (groups_of config)"
  then show "replace_groups_with_individuals (replace_groups_with_individuals revs config) config
         = replace_groups_with_individuals revs config"
    by (rule replace_groups_flat_groups)
qed

theorem replace_groups_idempotent_witness:
  "''alice'' \<notin> fst ` set (groups_of example_config)
   \<and> ''zed'' \<notin> fst ` set (groups_of example_config)
   \<and> replace_groups_with_individuals [''alice'', ''zed''] example_config = [''alice'', ''zed'']
   \<and> replace_groups_with_individuals
         (replace_groups_with_individuals [''alice'', ''zed''] example_config) example_config
       = replace_groups_with_individuals [''alice'', ''zed''] example_config
   \<and> replace_groups_with_individuals [''alice'', ''backend''] example_config
       = [''alice'', ''bob'', ''carol'']
   \<and> replace_groups_with_individuals
         (replace_groups_with_individuals [''alice'', ''backend''] example_config) example_config
       = replace_groups_with_individuals [''alice'', ''backend''] example_config"
proof -
  have h: "\<forall>r \<in> set [''alice'', ''zed'']. r \<notin> fst ` set (groups_of example_config)"
    by (simp add: groups_of_def example_config_def)
  have flat_groups: "\<forall>(g, members) \<in> set (groups_of example_config). \<forall>m \<in> set members.
          m \<notin> fst ` set (groups_of example_config)"
    by (simp add: groups_of_def example_config_def)
  have expand: "replace_groups_with_individuals [''alice'', ''backend''] example_config
       = [''alice'', ''bob'', ''carol'']"
    by (simp add: replace_groups_with_individuals_def groups_of_def example_config_def)
  from replace_groups_idempotent [of "[''alice'', ''zed'']" example_config] h
       replace_groups_idempotent [of "[''alice'', ''backend'']" example_config] flat_groups
       expand
  show ?thesis by simp
qed

section \<open>The author is never a candidate\<close>

lemma set_exclude_reviewers: "set (exclude_reviewers revs excludes) = set revs - set excludes"
  by (auto simp: exclude_reviewers_def set_new_Set)

lemma distinct_exclude_reviewers: "distinct (exclude_reviewers revs excludes)"
  by (simp add: exclude_reviewers_def distinct_new_Set)

lemma set_filter_excluded_reviewers:
  "set (filter_excluded_reviewers revs config) =
     set revs - set (replace_groups_with_individuals (with_default [] (option_of exclude config)) config)"
  by (simp add: filter_excluded_reviewers_def set_exclude_reviewers)

lemma distinct_filter_excluded_reviewers: "distinct (filter_excluded_reviewers revs config)"
  by (simp add: filter_excluded_reviewers_def distinct_exclude_reviewers)

lemma set_fetch_default_reviewers:
  "set (fetch_default_reviewers config excludes) =
     (case reviewers config of
        None \<Rightarrow> {}
      | Some rs \<Rightarrow>
          (case defaults rs of
             None \<Rightarrow> {}
           | Some ds \<Rightarrow> set (replace_groups_with_individuals ds config) - set excludes))"
  by (auto simp: fetch_default_reviewers_def set_exclude_reviewers split: option.splits)

lemma author_not_default:
  "author \<in> set excludes \<Longrightarrow> author \<notin> set (fetch_default_reviewers config excludes)"
  by (simp add: fetch_default_reviewers_def set_exclude_reviewers split: option.splits)

lemma author_not_by_files:
  "author \<in> set excludes \<Longrightarrow>
     author \<notin> set (identify_reviewers_by_changed_files minimatch config changed_files excludes)"
  by (simp add: identify_reviewers_by_changed_files_def set_exclude_reviewers Let_def
           split: option.splits)

lemma author_not_by_author: "author \<notin> set (identify_reviewers_by_author config author)"
  by (simp add: identify_reviewers_by_author_def Let_def split: option.splits)

lemma author_not_other_group_members: "author \<notin> set (fetch_other_group_members author config)"
  by (simp add: fetch_other_group_members_def Let_def set_new_Set)

text \<open>
  C1. Whatever the configuration, the changed files and the glob matcher, the author is
  not in the candidate set that the merge of the four sources and the global exclusion
  pass produce; an author listed in \<^verbatim>\<open>reviewers.defaults\<close> or under a matching glob of
  \<^verbatim>\<open>files\<close> is removed as well.
\<close>

theorem author_never_candidate:
  "author \<notin> set (candidate_reviewers minimatch config author changed_files)"
proof -
  have "author \<notin> set (fetch_default_reviewers config [author])"
    by (rule author_not_default) simp
  moreover have "author \<notin> set (identify_reviewers_by_changed_files minimatch config changed_files [author])"
    by (rule author_not_by_files) simp
  ultimately show ?thesis
    using author_not_by_author [of author config] author_not_other_group_members [of author config]
    by (simp add: candidate_reviewers_def Let_def set_filter_excluded_reviewers)
qed

theorem author_never_candidate_witness:
  "''alice'' \<in> set (the (defaults (the (reviewers example_config))))
   \<and> ''alice'' \<in> set (the (map_of (the (files example_config)) ''*.md''))
   \<and> ''alice'' \<notin> set (candidate_reviewers (\<lambda>file pattern. True) example_config ''alice'' [''README.md''])"
  using author_never_candidate [of "''alice''" "\<lambda>file pattern. True" example_config "[''README.md'']"]
  by (simp add: example_config_def)

section \<open>Eligibility\<close>

text \<open>
  C5. \<^verbatim>\<open>should_request_review\<close> is false for a draft when the effective
  \<^verbatim>\<open>ignore_draft\<close> (default true) is true; otherwise it is false exactly when some
  effective ignored keyword (default list: the single phrase DO NOT REVIEW) occurs in
  the title as a contiguous, case-sensitive substring, and true otherwise.
\<close>

theorem should_request_review_spec:
  "should_request_review title is_draft config =
     (if with_default True (option_of ignore_draft config) \<and> is_draft then False
      else \<not> (\<exists>keyword \<in> set (with_default [''DO NOT REVIEW''] (option_of ignored_keywords config)).
                \<exists>before after. title = before @ keyword @ after))"
  by (simp add: should_request_review_def Let_def list_ex_iff str_includes_sublist sublist_def)

theorem should_request_review_spec_witness:
  "\<not> should_request_review ''WIP: DO NOT REVIEW yet'' False example_config
   \<and> should_request_review ''WIP: do not review yet'' False example_config
   \<and> \<not> should_request_review ''Add feature'' True example_config
   \<and> should_request_review ''Add feature'' False example_config"
proof -
  have kw: "with_default [''DO NOT REVIEW''] (option_of ignored_keywords example_config)
              = [''DO NOT REVIEW'']"
    and dr: "with_default True (option_of ignore_draft example_config) = True"
    by (simp_all add: with_default_def option_of_def example_config_def example_options_def)
  have 1: "''WIP: DO NOT REVIEW yet'' = ''WIP: '' @ ''DO NOT REVIEW'' @ '' yet''" by simp
  have 2: "\<not> sublist ''DO NOT REVIEW'' ''WIP: do not review yet''" by code_simp
  have 3: "\<not> sublist ''DO NOT REVIEW'' ''Add feature''" by code_simp
  from 1 have "\<not> should_request_review ''WIP: DO NOT REVIEW yet'' False example_config"
    using should_request_review_spec [of "''WIP: DO NOT REVIEW yet''" False example_config]
    unfolding kw dr by (metis list.set_intros(1))
  moreover have "should_request_review ''WIP: do not review yet'' False example_config"
    using 2 should_request_review_spec [of "''WIP: do not review yet''" False example_config]
    unfolding kw dr by (simp add: sublist_def)
  moreover have "\<not> should_request_review ''Add feature'' True example_config"
    using should_request_review_spec [of "''Add feature''" True example_config]
    unfolding kw dr by simp
  moreover have "should_request_review ''Add feature'' False example_config"
    using 3 should_request_review_spec [of "''Add feature''" False example_config]
    unfolding kw dr by (simp add: sublist_def)
  ultimately show ?thesis by simp
qed

section \<open>Global exclusion\<close>

lemma group_members_in_expansion:
  "g \<in> set revs \<Longrightarrow> map_of (groups_of config) g = Some members \<Longrightarrow>
     set members \<subseteq> set (replace_groups_with_individuals revs config)"
  by (induction revs) (auto simp: replace_groups_Nil replace_groups_Cons split: option.splits)

text \<open>
  C6. The exclusion pass expands \<^verbatim>\<open>options.exclude\<close> through the groups before it
  removes anything: the output is the candidates minus the expanded list, so every
  member of a group named in \<^verbatim>\<open>options.exclude\<close> is gone from the output, whichever
  rule contributed that member.
\<close>

theorem excluded_group_members_removed:
  assumes "g \<in> set (with_default [] (option_of exclude config))"
      and "map_of (groups_of config) g = Some members"
      and "m \<in> set members"
  shows "m \<notin> set (filter_excluded_reviewers revs config)
       \<and> set (filter_excluded_reviewers revs config)
           = set revs - set (replace_groups_with_individuals
                               (with_default [] (option_of exclude config)) config)"
  using group_members_in_expansion [OF assms(1,2)] assms(3)
  by (auto simp: set_filter_excluded_reviewers)

theorem excluded_group_members_removed_witness:
  "''backend'' \<in> set (with_default [] (option_of exclude example_config))
   \<and> map_of (groups_of example_config) ''backend'' = Some [''bob'', ''carol'']
   \<and> ''carol'' \<in> set [''bob'', ''carol'']
   \<and> ''carol'' \<in> set [''carol'', ''dan'']
   \<and> ''carol'' \<notin> set (filter_excluded_reviewers [''carol'', ''dan''] example_config)"
proof -
  have 1: "''backend'' \<in> set (with_default [] (option_of exclude example_config))"
    by (simp add: with_default_def option_of_def example_config_def example_options_def)
  have 2: "map_of (groups_of example_config) ''backend'' = Some [''bob'', ''carol'']"
    by (simp add: groups_of_def example_config_def)
  have 3: "''carol'' \<in> set [''bob'', ''carol'']" by simp
  from excluded_group_members_removed [OF 1 2 3, of "[''carol'', ''dan'']"]
  have "''carol'' \<notin> set (filter_excluded_reviewers [''carol'', ''dan''] example_config)"
    by (rule conjunct1)
  with 1 2 show ?thesis by simp
qed


section \<open>Sampling: facts\<close>

lemma base_random_range:
  "index < length array \<Longrightarrow>
     index \<le> base_random rng index (length array - 1)
     \<and> base_random rng index (length array - 1) < length array"
proof -
  assume lt: "index < length array"
  define r where "r = rng index mod Suc (length array - Suc index)"
  have "r \<le> length array - Suc index"
    unfolding r_def by (rule mod_Suc_le_divisor)
  with lt have "index + r < length array" by arith
  then show ?thesis by (simp add: base_random_def r_def)
qed

lemma shuffle_loop_mset_length:
  "sz \<le> length array \<Longrightarrow>
     mset (shuffle_loop rng array index sz) = mset array
     \<and> length (shuffle_loop rng array index sz) = length array"
proof (induction rng array index sz rule: shuffle_loop.induct)
  case (1 rng array index sz)
  show ?case
  proof (cases "index < sz")
    case False
    then show ?thesis by simp
  next
    case True
    define rand where "rand = base_random rng index (length array - 1)"
    define swapped where "swapped = array[rand := array ! index, index := array ! rand]"
    from True "1.prems" have idx: "index < length array" by simp
    then have rnd: "rand < length array"
      using base_random_range [of index array rng] by (simp add: rand_def)
    have len: "length swapped = length array" by (simp add: swapped_def)
    have ms: "mset swapped = mset array"
      unfolding swapped_def using idx rnd by (rule mset_swap)
    from "1.IH" [OF True rand_def refl] "1.prems" len
    have "mset (shuffle_loop rng swapped (Suc index) sz) = mset swapped
          \<and> length (shuffle_loop rng swapped (Suc index) sz) = length swapped"
      by (simp add: swapped_def rand_def)
    moreover have "shuffle_loop rng array index sz = shuffle_loop rng swapped (Suc index) sz"
      using True by (subst shuffle_loop.simps) (simp add: swapped_def rand_def Let_def)
    ultimately show ?thesis using ms len by simp
  qed
qed

lemma base_clamp_nat:
  "nat (base_clamp n 0 (int k)) = (if n \<le> 0 then 0 else if n \<le> int k then nat n else k)"
  by (simp add: base_clamp_def Let_def)

lemma sample_size_facts:
  "length (sample_size rng array n) = nat (base_clamp n 0 (int (length array)))
   \<and> mset (sample_size rng array n) \<subseteq># mset array
   \<and> (distinct array \<longrightarrow> distinct (sample_size rng array n))"
proof -
  define sz where "sz = nat (base_clamp n 0 (int (length array)))"
  define shuffled where "shuffled = shuffle_loop rng array 0 sz"
  have le: "sz \<le> length array" by (auto simp: sz_def base_clamp_nat)
  from shuffle_loop_mset_length [OF le, of rng 0]
  have ms: "mset shuffled = mset array" and len: "length shuffled = length array"
    by (simp_all add: shuffled_def)
  have eq: "sample_size rng array n = take sz shuffled"
    by (simp add: sample_size_def shuffle_self_def sz_def shuffled_def)
  have "mset (take sz shuffled) \<subseteq># mset shuffled"
    by (metis append_take_drop_id mset_append mset_subset_eq_add_left)
  moreover have "distinct array \<Longrightarrow> distinct shuffled"
    using ms by (metis mset_eq_imp_distinct_iff)
  ultimately show ?thesis using le len ms eq sz_def by (simp add: min_def)
qed

lemma sample_size_whole:
  "int (length array) \<le> n \<Longrightarrow> mset (sample_size rng array n) = mset array"
proof -
  assume ge: "int (length array) \<le> n"
  then have sz: "nat (base_clamp n 0 (int (length array))) = length array"
    by (simp add: base_clamp_nat)
  from shuffle_loop_mset_length [of "length array" array rng 0]
  show ?thesis by (simp add: sample_size_def shuffle_self_def sz)
qed

text \<open>
  C7. \<^verbatim>\<open>randomly_pick_reviewers\<close> returns the list unchanged when
  \<^verbatim>\<open>number_of_reviewers\<close> is unset. When it is set to \<open>n\<close> and the pool has at least \<open>n\<close>
  elements, the result has exactly \<open>n\<close> elements, drawn from the pool without
  replacement (a sub-multiset of the pool, so duplicate-free whenever the pool is).
  When \<open>n\<close> exceeds the size of the pool the result is the whole pool, reordered.
\<close>

theorem randomly_pick_reviewers_sample:
  "(option_of number_of_reviewers config = None \<longrightarrow>
      randomly_pick_reviewers rng revs config = revs)
   \<and> (option_of number_of_reviewers config = Some (int n) \<and> n \<le> length revs \<longrightarrow>
        length (randomly_pick_reviewers rng revs config) = n
        \<and> mset (randomly_pick_reviewers rng revs config) \<subseteq># mset revs
        \<and> set (randomly_pick_reviewers rng revs config) \<subseteq> set revs
        \<and> (distinct revs \<longrightarrow> distinct (randomly_pick_reviewers rng revs config)))
   \<and> (option_of number_of_reviewers config = Some (int n) \<and> length revs < n \<longrightarrow>
        mset (randomly_pick_reviewers rng revs config) = mset revs
        \<and> length (randomly_pick_reviewers rng revs config) = length revs)"
proof (intro conjI impI)
  assume "option_of number_of_reviewers config = None"
  then show "randomly_pick_reviewers rng revs config = revs"
    by (simp add: randomly_pick_reviewers_def)
next
  assume a: "option_of number_of_reviewers config = Some (int n) \<and> n \<le> length revs"
  then have eq: "randomly_pick_reviewers rng revs config = sample_size rng revs (int n)"
    by (simp add: randomly_pick_reviewers_def)
  from a have "nat (base_clamp (int n) 0 (int (length revs))) = n"
    by (simp add: base_clamp_nat)
  with sample_size_facts [of rng revs "int n"] eq
  show "length (randomly_pick_reviewers rng revs config) = n"
    and sub: "mset (randomly_pick_reviewers rng revs config) \<subseteq># mset revs"
    by simp_all
  from set_mset_mono [OF sub] show "set (randomly_pick_reviewers rng revs config) \<subseteq> set revs"
    by simp
  assume "distinct revs"
  with sample_size_facts [of rng revs "int n"] eq
  show "distinct (randomly_pick_reviewers rng revs config)" by simp
next
  assume a: "option_of number_of_reviewers config = Some (int n) \<and> length revs < n"
  then have eq: "randomly_pick_reviewers rng revs config = sample_size rng revs (int n)"
    by (simp add: randomly_pick_reviewers_def)
  from a have "int (length revs) \<le> int n" by simp
  from sample_size_whole [OF this, of rng] eq
  show ms: "mset (randomly_pick_reviewers rng revs config) = mset revs" by simp
  then show "length (randomly_pick_reviewers rng revs config) = length revs"
    by (metis size_mset)
qed


theorem randomly_pick_reviewers_sample_witness:
  "option_of number_of_reviewers (example_config\<lparr>options := None\<rparr>) = None
   \<and> randomly_pick_reviewers (\<lambda>i. 7) [''a'', ''b'', ''c'', ''d''] (example_config\<lparr>options := None\<rparr>)
       = [''a'', ''b'', ''c'', ''d'']
   \<and> option_of number_of_reviewers example_config = Some (int 2)
   \<and> 2 \<le> length [''a'', ''b'', ''c'', ''d'']
   \<and> length (randomly_pick_reviewers (\<lambda>i. 7) [''a'', ''b'', ''c'', ''d''] example_config) = 2
   \<and> mset (randomly_pick_reviewers (\<lambda>i. 7) [''a'', ''b'', ''c'', ''d''] example_config)
       \<subseteq># mset [''a'', ''b'', ''c'', ''d'']
   \<and> distinct (randomly_pick_reviewers (\<lambda>i. 7) [''a'', ''b'', ''c'', ''d''] example_config)
   \<and> length [''a''] < 2
   \<and> mset (randomly_pick_reviewers (\<lambda>i. 7) [''a''] example_config) = mset [''a'']"
proof -
  have none: "option_of number_of_reviewers (example_config\<lparr>options := None\<rparr>) = None"
    by (simp add: option_of_def)
  have two: "option_of number_of_reviewers example_config = Some (int 2)"
    by (simp add: option_of_def example_config_def example_options_def)
  show ?thesis
    using none two
      randomly_pick_reviewers_sample
        [where config = "example_config\<lparr>options := None\<rparr>" and rng = "\<lambda>i. 7"
           and revs = "[''a'', ''b'', ''c'', ''d'']" and n = 0]
      randomly_pick_reviewers_sample
        [where config = example_config and rng = "\<lambda>i. 7"
           and revs = "[''a'', ''b'', ''c'', ''d'']" and n = 2]
      randomly_pick_reviewers_sample
        [where config = example_config and rng = "\<lambda>i. 7" and revs = "[''a'']" and n = 2]
    by simp
qed

section \<open>Live reconciliation: facts\<close>

lemma team_slugs_drop:
  "team_slugs revs = map (drop (length ''team:'')) (filter (\<lambda>r. startsWith r ''team:'') revs)"
  unfolding team_slugs_def by (induction revs) (simp_all add: str_replace_prefix)

lemma filter_includes_author_defined:
  "No_roster \<notin> set rosters \<Longrightarrow>
     filter_includes_author author rosters
       = Inr (filter (\<lambda>r. \<exists>members. r = Roster members \<and> author \<in> set members) rosters)"
proof (induction rosters)
  case Nil
  then show ?case by simp
next
  case (Cons r rosters)
  then show ?case by (cases r) auto
qed

lemma filter_includes_author_undefined:
  "No_roster \<in> set rosters \<Longrightarrow> filter_includes_author author rosters = Inl Type_error"
proof (induction rosters)
  case Nil
  then show ?case by simp
next
  case (Cons r rosters)
  then show ?case by (cases r) auto
qed

lemma set_flat:
  "set (flat rosters) =
     (if No_roster \<in> set rosters then {Undefined} else {})
     \<union> Str ` {m. \<exists>members. Roster members \<in> set rosters \<and> m \<in> set members}"
proof (induction rosters)
  case Nil
  then show ?case by simp
next
  case (Cons r rosters)
  then show ?case by (cases r) auto
qed

lemma fetch_author_unfold:
  "option_of load_github_members config = Some b \<Longrightarrow>
   fetch_author_belongs_to_github_team_members api revs config author =
     (case (if \<not> with_default False (option_of force_pick config)
            then filter_includes_author author
                   (map (\<lambda>team. snd (list_team_members api team)) (team_slugs revs))
            else Inr (map (\<lambda>team. snd (list_team_members api team)) (team_slugs revs))) of
        Inl e \<Rightarrow> Inl e
      | Inr kept \<Rightarrow>
          Inr (new_Set (map Str (filter (\<lambda>r. \<not> startsWith r ''team:'') revs)
                        @ filter (\<lambda>member. member \<noteq> Str author) (flat kept))))"
  by (simp add: fetch_author_belongs_to_github_team_members_def Let_def team_slugs_def comp_def)


lemma fetch_author_rosters_defined:
  assumes "option_of load_github_members config = Some b"
      and "\<forall>team \<in> set (team_slugs revs). snd (list_team_members api team) \<noteq> No_roster"
  shows "fetch_author_belongs_to_github_team_members api revs config author =
           Inr (new_Set (map Str (filter (\<lambda>r. \<not> startsWith r ''team:'') revs)
                @ filter (\<lambda>member. member \<noteq> Str author)
                    (flat (if with_default False (option_of force_pick config)
                           then map (\<lambda>team. snd (list_team_members api team)) (team_slugs revs)
                           else filter (\<lambda>r. \<exists>members. r = Roster members \<and> author \<in> set members)
                                  (map (\<lambda>team. snd (list_team_members api team))
                                     (team_slugs revs))))))"
proof -
  from assms(2)
  have "No_roster \<notin> set (map (\<lambda>team. snd (list_team_members api team)) (team_slugs revs))"
    by auto
  from filter_includes_author_defined [OF this, of author]
       fetch_author_unfold [OF assms(1), of api revs author]
  show ?thesis by simp
qed

lemma example_load: "option_of load_github_members example_config = Some False"
  by (simp add: option_of_def example_config_def example_options_def)

lemma example_force: "with_default False (option_of force_pick example_config) = False"
  by (simp add: with_default_def option_of_def example_config_def example_options_def)

lemma force_pick_load: "option_of load_github_members force_pick_config = Some False"
  by (simp add: option_of_def force_pick_config_def example_options_def)

lemma force_pick_force: "with_default False (option_of force_pick force_pick_config) = True"
  by (simp add: with_default_def option_of_def force_pick_config_def example_options_def)

lemma slugs_infra: "team_slugs [''team:infra'', ''alice''] = [''infra'']"
  by (simp add: team_slugs_def startsWith_def)

lemma slugs_gone: "team_slugs [''team:gone'', ''alice''] = [''gone'']"
  by (simp add: team_slugs_def startsWith_def)

lemma slugs_ops: "team_slugs [''team:ops'', ''alice''] = [''ops'']"
  by (simp add: team_slugs_def startsWith_def)

lemma roster_infra: "snd (list_team_members failing_api ''infra'') = Roster [''bob'']"
  by (simp add: list_team_members_def failing_api_def)

lemma roster_defined:
  "(\<forall>e. listMembersInOrg api team = Inl e \<longrightarrow> status e = Some 404) \<Longrightarrow>
     snd (list_team_members api team) \<noteq> No_roster"
  by (cases "listMembersInOrg api team") (simp_all add: list_team_members_def)

lemma fetch_author_absent:
  "option_of load_github_members config = None \<Longrightarrow>
     fetch_author_belongs_to_github_team_members api revs config author = Inr (map Str revs)"
  by (simp add: fetch_author_belongs_to_github_team_members_def)

lemma fetch_author_present_distinct:
  "option_of load_github_members config = Some b \<Longrightarrow>
   fetch_author_belongs_to_github_team_members api revs config author = Inr out \<Longrightarrow>
   distinct out"
  by (auto simp: fetch_author_unfold distinct_new_Set split: sum.splits if_splits)

lemma fetch_author_distinct:
  assumes "distinct revs"
      and "fetch_author_belongs_to_github_team_members api revs config author = Inr out"
  shows "distinct out"
proof (cases "option_of load_github_members config")
  case None
  with assms show ?thesis
    by (auto simp: fetch_author_absent distinct_map inj_on_def)
next
  case (Some b)
  from fetch_author_present_distinct [OF Some assms(2)] show ?thesis .
qed

lemma filter_already_unfold:
  "filter_already_requested_reviewers api revs config =
     (case option_of load_github_members config of
        None \<Rightarrow> Inr revs
      | Some b \<Rightarrow>
          (case list_requested_reviewers api of
             Inl e \<Rightarrow> Inl e
           | Inr requested \<Rightarrow> Inr (filter (\<lambda>r. r \<notin> Str ` set requested) revs)))"
  by (simp add: filter_already_requested_reviewers_def)

lemma filter_already_distinct:
  "distinct revs \<Longrightarrow> filter_already_requested_reviewers api revs config = Inr out \<Longrightarrow>
     distinct out"
  by (auto simp: filter_already_unfold split: option.splits sum.splits)

lemma distinct_randomly_pick:
  "distinct revs \<Longrightarrow> distinct (randomly_pick_reviewers rng revs config)"
  using sample_size_facts [of rng revs]
  by (simp add: randomly_pick_reviewers_def split: option.splits)

text \<open>
  C4. With the live-membership option present and every looked-up team resolved to a
  roster, the stage returns a duplicate-free list whose elements are the candidates
  without the prefix together with the members of the kept rosters other than the
  author. A roster is kept whole when \<^verbatim>\<open>force_pick\<close> is true or the author is one of its
  members, and dropped whole otherwise.
\<close>

theorem team_rosters_reconciled:
  assumes "option_of load_github_members config = Some b"
      and "\<forall>team \<in> set (team_slugs revs). snd (list_team_members api team) \<noteq> No_roster"
  shows "\<exists>out. fetch_author_belongs_to_github_team_members api revs config author = Inr out
           \<and> distinct out
           \<and> set out =
               Str ` (set (filter (\<lambda>r. \<not> startsWith r ''team:'') revs)
                      \<union> ({m. \<exists>team \<in> set (team_slugs revs). \<exists>members.
                               snd (list_team_members api team) = Roster members
                               \<and> (with_default False (option_of force_pick config)
                                    \<or> author \<in> set members)
                               \<and> m \<in> set members} - {author}))"
proof -
  define rosters where "rosters = map (\<lambda>team. snd (list_team_members api team)) (team_slugs revs)"
  define kept where "kept =
    (if with_default False (option_of force_pick config) then rosters
     else filter (\<lambda>r. \<exists>members. r = Roster members \<and> author \<in> set members) rosters)"
  define out where "out =
    new_Set (map Str (filter (\<lambda>r. \<not> startsWith r ''team:'') revs)
             @ filter (\<lambda>member. member \<noteq> Str author) (flat kept))"
  from assms(2) have defined: "No_roster \<notin> set rosters"
    by (auto simp: rosters_def)
  then have kept_defined: "No_roster \<notin> set kept"
    by (simp add: kept_def)
  have run: "fetch_author_belongs_to_github_team_members api revs config author = Inr out"
    using fetch_author_rosters_defined [OF assms, of author]
    by (simp add: rosters_def kept_def out_def)
  have in_rosters: "Roster members \<in> set rosters \<longleftrightarrow>
      (\<exists>team \<in> set (team_slugs revs). snd (list_team_members api team) = Roster members)"
    for members
    unfolding rosters_def by (simp add: image_iff) metis
  have members: "{m. \<exists>members. Roster members \<in> set kept \<and> m \<in> set members}
      = {m. \<exists>team \<in> set (team_slugs revs). \<exists>members.
              snd (list_team_members api team) = Roster members
              \<and> (with_default False (option_of force_pick config) \<or> author \<in> set members)
              \<and> m \<in> set members}"
    unfolding kept_def by (auto simp: in_rosters)
  have "set out = Str ` set (filter (\<lambda>r. \<not> startsWith r ''team:'') revs)
                  \<union> (Str ` {m. \<exists>members. Roster members \<in> set kept \<and> m \<in> set members}
                      - {Str author})"
    using kept_defined by (auto simp: out_def set_new_Set set_flat)
  also have "\<dots> = Str ` (set (filter (\<lambda>r. \<not> startsWith r ''team:'') revs)
                      \<union> ({m. \<exists>members. Roster members \<in> set kept \<and> m \<in> set members}
                          - {author}))"
    by auto
  finally have "set out = Str ` (set (filter (\<lambda>r. \<not> startsWith r ''team:'') revs)
                      \<union> ({m. \<exists>members. Roster members \<in> set kept \<and> m \<in> set members}
                          - {author}))" .
  with run members show ?thesis
    by (simp add: out_def distinct_new_Set)
qed


theorem team_rosters_reconciled_witness:
  "option_of load_github_members example_config = Some False
   \<and> team_slugs [''team:infra'', ''alice''] = [''infra'']
   \<and> snd (list_team_members failing_api ''infra'') = Roster [''bob'']
   \<and> (\<exists>out. fetch_author_belongs_to_github_team_members failing_api [''team:infra'', ''alice'']
                 example_config ''alice'' = Inr out
             \<and> distinct out \<and> set out = {Str ''alice''})"
proof -
  have h: "\<forall>team \<in> set (team_slugs [''team:infra'', ''alice'']).
             snd (list_team_members failing_api team) \<noteq> No_roster"
    by (simp add: slugs_infra roster_infra)
  from team_rosters_reconciled [OF example_load h, of "''alice''"]
  obtain out where
    "fetch_author_belongs_to_github_team_members failing_api [''team:infra'', ''alice'']
       example_config ''alice'' = Inr out"
    "distinct out" "set out = {Str ''alice''}"
    by (auto simp: slugs_infra roster_infra example_force startsWith_def)
  with example_load slugs_infra roster_infra show ?thesis by blast
qed

text \<open>
  C9. When the membership query fails with status 404, \<^verbatim>\<open>list_team_members\<close> logs the
  warning and returns the empty roster; a run all of whose failed lookups are 404s gets
  a result from \<^verbatim>\<open>fetch_author_belongs_to_github_team_members\<close>, not an error.
\<close>

theorem team_not_found_empty_roster:
  assumes "listMembersInOrg api team = Inl err" and "status err = Some 404"
  shows "list_team_members api team =
           ([Info (''Org:'' @ repo_owner api @ ''. Listing team members for team '' @ team),
             Warning ''No team was found''], Roster [])
       \<and> ((\<forall>t \<in> set (team_slugs revs). \<forall>e. listMembersInOrg api t = Inl e \<longrightarrow> status e = Some 404)
            \<longrightarrow> (\<exists>out. fetch_author_belongs_to_github_team_members api revs config author = Inr out))"
proof (intro conjI impI)
  from assms show "list_team_members api team =
           ([Info (''Org:'' @ repo_owner api @ ''. Listing team members for team '' @ team),
             Warning ''No team was found''], Roster [])"
    by (simp add: list_team_members_def)
next
  assume all: "\<forall>t \<in> set (team_slugs revs). \<forall>e. listMembersInOrg api t = Inl e \<longrightarrow> status e = Some 404"
  show "\<exists>out. fetch_author_belongs_to_github_team_members api revs config author = Inr out"
  proof (cases "option_of load_github_members config")
    case None
    then show ?thesis by (simp add: fetch_author_absent)
  next
    case (Some b)
    from all have "\<forall>t \<in> set (team_slugs revs). snd (list_team_members api t) \<noteq> No_roster"
      by (simp add: roster_defined)
    from fetch_author_rosters_defined [OF Some this] show ?thesis by blast
  qed
qed


theorem team_not_found_empty_roster_witness:
  "listMembersInOrg failing_api ''gone'' = Inl (Request_error (Some 404))
   \<and> status (Request_error (Some 404)) = Some 404
   \<and> list_team_members failing_api ''gone'' =
       ([Info ''Org:org. Listing team members for team gone'', Warning ''No team was found''],
        Roster [])
   \<and> team_slugs [''team:gone'', ''alice''] = [''gone'']
   \<and> (\<exists>out. fetch_author_belongs_to_github_team_members failing_api [''team:gone'', ''alice'']
                 example_config ''alice'' = Inr out)"
proof -
  have 1: "listMembersInOrg failing_api ''gone'' = Inl (Request_error (Some 404))"
    by (simp add: failing_api_def)
  have 2: "status (Request_error (Some 404)) = Some 404" by simp
  have 3: "\<forall>t \<in> set (team_slugs [''team:gone'', ''alice'']).
             \<forall>e. listMembersInOrg failing_api t = Inl e \<longrightarrow> status e = Some 404"
    by (simp add: slugs_gone failing_api_def)
  have owner: "repo_owner failing_api = ''org''" by (simp add: failing_api_def)
  from team_not_found_empty_roster
         [OF 1 2, of "[''team:gone'', ''alice'']" example_config "''alice''"] 3
  have "list_team_members failing_api ''gone'' =
       ([Info ''Org:org. Listing team members for team gone'', Warning ''No team was found''],
        Roster [])"
    and "\<exists>out. fetch_author_belongs_to_github_team_members failing_api [''team:gone'', ''alice'']
                 example_config ''alice'' = Inr out"
    by (simp_all add: owner)
  with 1 2 slugs_gone show ?thesis by simp
qed

text \<open>
  C10, as the code has it. When the membership query fails with a status other than
  404, \<^verbatim>\<open>list_team_members\<close> logs no warning and returns \<^verbatim>\<open>undefined\<close>: the error does
  not propagate and no empty roster stands in for it. With \<^verbatim>\<open>force_pick\<close> unset or false
  the stage then throws a \<^verbatim>\<open>TypeError\<close>, from \<^verbatim>\<open>members.includes\<close> on the undefined
  roster. With \<^verbatim>\<open>force_pick\<close> true the stage calls no method on the roster and returns
  normally, with \<^verbatim>\<open>undefined\<close> as an element of its result.
\<close>

theorem team_lookup_failure_undefined:
  assumes "listMembersInOrg api team = Inl err" and "status err \<noteq> Some 404"
  shows "list_team_members api team =
           ([Info (''Org:'' @ repo_owner api @ ''. Listing team members for team '' @ team)],
            No_roster)
       \<and> (option_of load_github_members config = Some b \<and> team \<in> set (team_slugs revs) \<longrightarrow>
            (if with_default False (option_of force_pick config)
             then \<exists>out. fetch_author_belongs_to_github_team_members api revs config author = Inr out
                        \<and> Undefined \<in> set out
             else fetch_author_belongs_to_github_team_members api revs config author
                    = Inl Type_error))"
proof (intro conjI impI)
  from assms show undefined_roster: "list_team_members api team =
           ([Info (''Org:'' @ repo_owner api @ ''. Listing team members for team '' @ team)],
            No_roster)"
    by (simp add: list_team_members_def)
  assume a: "option_of load_github_members config = Some b \<and> team \<in> set (team_slugs revs)"
  define rosters where "rosters = map (\<lambda>team. snd (list_team_members api team)) (team_slugs revs)"
  from a undefined_roster have missing: "No_roster \<in> set rosters"
    by (force simp: rosters_def)
  show "if with_default False (option_of force_pick config)
        then \<exists>out. fetch_author_belongs_to_github_team_members api revs config author = Inr out
                   \<and> Undefined \<in> set out
        else fetch_author_belongs_to_github_team_members api revs config author = Inl Type_error"
  proof (cases "with_default False (option_of force_pick config)")
    case True
    from missing have "Undefined \<in> set (flat rosters)" by (simp add: set_flat)
    with True a fetch_author_unfold [of config b api revs author] show ?thesis
      by (simp add: rosters_def set_new_Set)
  next
    case False
    with a fetch_author_unfold [of config b api revs author]
         filter_includes_author_undefined [OF missing, of author]
    show ?thesis by (simp add: rosters_def)
  qed
qed

theorem team_lookup_failure_undefined_witness:
  "listMembersInOrg failing_api ''ops'' = Inl (Request_error (Some 500))
   \<and> status (Request_error (Some 500)) \<noteq> Some 404
   \<and> list_team_members failing_api ''ops'' =
       ([Info ''Org:org. Listing team members for team ops''], No_roster)
   \<and> option_of load_github_members example_config = Some False
   \<and> ''ops'' \<in> set (team_slugs [''team:ops'', ''alice''])
   \<and> fetch_author_belongs_to_github_team_members failing_api [''team:ops'', ''alice'']
         example_config ''bob'' = Inl Type_error
   \<and> (\<exists>out. fetch_author_belongs_to_github_team_members failing_api [''team:ops'', ''alice'']
                 force_pick_config ''bob'' = Inr out \<and> Undefined \<in> set out)"
proof -
  have 1: "listMembersInOrg failing_api ''ops'' = Inl (Request_error (Some 500))"
    by (simp add: failing_api_def)
  have 2: "status (Request_error (Some 500)) \<noteq> Some 404" by simp
  have 3: "''ops'' \<in> set (team_slugs [''team:ops'', ''alice''])" by (simp add: slugs_ops)
  have owner: "repo_owner failing_api = ''org''" by (simp add: failing_api_def)
  from team_lookup_failure_undefined
         [OF 1 2, of example_config False "[''team:ops'', ''alice'']" "''bob''"]
       example_load example_force 3
  have a: "list_team_members failing_api ''ops'' =
             ([Info ''Org:org. Listing team members for team ops''], No_roster)"
    and b: "fetch_author_belongs_to_github_team_members failing_api [''team:ops'', ''alice'']
              example_config ''bob'' = Inl Type_error"
    by (simp_all add: owner)
  from team_lookup_failure_undefined
         [OF 1 2, of force_pick_config False "[''team:ops'', ''alice'']" "''bob''"]
       force_pick_load force_pick_force 3
  have c: "\<exists>out. fetch_author_belongs_to_github_team_members failing_api [''team:ops'', ''alice'']
                 force_pick_config ''bob'' = Inr out \<and> Undefined \<in> set out"
    by simp
  from 1 2 3 a b c example_load show ?thesis by simp
qed

text \<open>
  The claim that the failure always surfaces inside the stage does not hold: with
  \<^verbatim>\<open>force_pick\<close> true and a lookup that fails with status 500 the stage returns a list.
\<close>

theorem team_lookup_failure_counterexample:
  "listMembersInOrg failing_api ''ops'' = Inl (Request_error (Some 500))
   \<and> status (Request_error (Some 500)) \<noteq> Some 404
   \<and> option_of load_github_members force_pick_config = Some False
   \<and> snd (list_team_members failing_api ''ops'') = No_roster
   \<and> fetch_author_belongs_to_github_team_members failing_api [''team:ops'', ''alice'']
         force_pick_config ''bob'' = Inr [Str ''alice'', Undefined]"
proof -
  have "snd (list_team_members failing_api ''ops'') = No_roster"
    by (simp add: list_team_members_def failing_api_def)
  moreover from this
  have "fetch_author_belongs_to_github_team_members failing_api [''team:ops'', ''alice'']
         force_pick_config ''bob'' = Inr [Str ''alice'', Undefined]"
    using fetch_author_unfold [OF force_pick_load, of failing_api "[''team:ops'', ''alice'']" "''bob''"]
    by (simp add: force_pick_force slugs_ops startsWith_def new_Set_def)
  ultimately show ?thesis
    by (simp add: failing_api_def force_pick_load)
qed


lemma slugs_no_team:
  "\<forall>r \<in> set revs. \<not> startsWith r ''team:'' \<Longrightarrow> team_slugs revs = []"
  by (induction revs) (simp_all add: team_slugs_def)

lemma filter_no_team:
  "\<forall>r \<in> set revs. \<not> startsWith r ''team:'' \<Longrightarrow>
     filter (\<lambda>r. \<not> startsWith r ''team:'') revs = revs"
  by (induction revs) simp_all

lemma new_Set_unchanged: "new_Set xs = xs \<longleftrightarrow> distinct xs"
  by (metis distinct_new_Set new_Set_distinct)

text \<open>
  C3, as the code has it. With \<^verbatim>\<open>load_github_members\<close> absent both stages return their
  input. With the option present, whatever its value, both stages run: the team stage
  throws where a roster is \<^verbatim>\<open>undefined\<close> and \<^verbatim>\<open>force_pick\<close> is not set, and otherwise
  returns the deduplicated candidates without the prefix followed by the members of the
  kept rosters other than the author; the already-requested stage passes an error of the
  lookup on, and otherwise returns the input without the reviewers that the lookup
  returned, and nothing else is removed. A stage that runs can still return a particular
  input as it is: the team stage, on a list without team entries, exactly when the list
  has no duplicates, and the already-requested stage exactly when no input reviewer was
  returned by the lookup. As functions of their input, both stages are the identity
  exactly when the option is absent.
\<close>

theorem live_reconciliation_trigger:
  "(option_of load_github_members config = None \<longrightarrow>
      fetch_author_belongs_to_github_team_members api revs config author = Inr (map Str revs)
      \<and> filter_already_requested_reviewers api resolved config = Inr resolved)
   \<and> (option_of load_github_members config = Some b \<longrightarrow>
        fetch_author_belongs_to_github_team_members api revs config author =
          (let rosters = map (\<lambda>team. snd (list_team_members api team)) (team_slugs revs);
               individuals = filter (\<lambda>r. \<not> startsWith r ''team:'') revs;
               forced = with_default False (option_of force_pick config)
           in if \<not> forced \<and> No_roster \<in> set rosters then Inl Type_error
              else Inr (new_Set (map Str individuals
                     @ filter (\<lambda>member. member \<noteq> Str author)
                         (flat (if forced then rosters
                                else filter (\<lambda>r. \<exists>members. r = Roster members
                                                  \<and> author \<in> set members) rosters))))))
   \<and> (option_of load_github_members config = Some b
        \<and> (\<forall>r \<in> set revs. \<not> startsWith r ''team:'') \<longrightarrow>
        fetch_author_belongs_to_github_team_members api revs config author
          = Inr (new_Set (map Str revs))
        \<and> (fetch_author_belongs_to_github_team_members api revs config author
              = Inr (map Str revs) \<longleftrightarrow> distinct revs))
   \<and> (option_of load_github_members config = Some b
        \<and> list_requested_reviewers api = Inl e \<longrightarrow>
        filter_already_requested_reviewers api resolved config = Inl e)
   \<and> (option_of load_github_members config = Some b
        \<and> list_requested_reviewers api = Inr requested_reviewers \<longrightarrow>
        filter_already_requested_reviewers api resolved config
          = Inr (filter (\<lambda>reviewer. reviewer \<notin> Str ` set requested_reviewers) resolved)
        \<and> (\<exists>remaining. filter_already_requested_reviewers api resolved config = Inr remaining
               \<and> set remaining = set resolved - Str ` set requested_reviewers)
        \<and> (filter_already_requested_reviewers api resolved config = Inr resolved
              \<longleftrightarrow> set resolved \<inter> Str ` set requested_reviewers = {}))
   \<and> ((\<forall>api revs author.
         fetch_author_belongs_to_github_team_members api revs config author = Inr (map Str revs))
       \<longleftrightarrow> option_of load_github_members config = None)
   \<and> ((\<forall>api resolved. filter_already_requested_reviewers api resolved config = Inr resolved)
       \<longleftrightarrow> option_of load_github_members config = None)"
proof (intro conjI impI)
  assume "option_of load_github_members config = None"
  then show "fetch_author_belongs_to_github_team_members api revs config author = Inr (map Str revs)"
    and "filter_already_requested_reviewers api resolved config = Inr resolved"
    by (simp_all add: fetch_author_absent filter_already_unfold)
next
  assume present: "option_of load_github_members config = Some b"
  define rosters where "rosters = map (\<lambda>team. snd (list_team_members api team)) (team_slugs revs)"
  show "fetch_author_belongs_to_github_team_members api revs config author =
          (let rosters = map (\<lambda>team. snd (list_team_members api team)) (team_slugs revs);
               individuals = filter (\<lambda>r. \<not> startsWith r ''team:'') revs;
               forced = with_default False (option_of force_pick config)
           in if \<not> forced \<and> No_roster \<in> set rosters then Inl Type_error
              else Inr (new_Set (map Str individuals
                     @ filter (\<lambda>member. member \<noteq> Str author)
                         (flat (if forced then rosters
                                else filter (\<lambda>r. \<exists>members. r = Roster members
                                                  \<and> author \<in> set members) rosters)))))"
  proof (cases "No_roster \<in> set rosters")
    case True
    from filter_includes_author_undefined [OF True, of author]
         fetch_author_unfold [OF present, of api revs author] True
    show ?thesis by (simp add: rosters_def Let_def)
  next
    case False
    from filter_includes_author_defined [OF False, of author]
         fetch_author_unfold [OF present, of api revs author] False
    show ?thesis by (simp add: rosters_def Let_def)
  qed
next
  assume a: "option_of load_github_members config = Some b
        \<and> (\<forall>r \<in> set revs. \<not> startsWith r ''team:'')"
  then have run: "fetch_author_belongs_to_github_team_members api revs config author
          = Inr (new_Set (map Str revs))"
    using fetch_author_unfold [of config b api revs author]
    by (simp add: slugs_no_team filter_no_team)
  then show "fetch_author_belongs_to_github_team_members api revs config author
          = Inr (new_Set (map Str revs))" .
  have "distinct (map Str revs) \<longleftrightarrow> distinct revs"
    by (simp add: distinct_map inj_on_def)
  with run show "fetch_author_belongs_to_github_team_members api revs config author
              = Inr (map Str revs) \<longleftrightarrow> distinct revs"
    by (simp add: new_Set_unchanged)
next
  assume "option_of load_github_members config = Some b \<and> list_requested_reviewers api = Inl e"
  then show "filter_already_requested_reviewers api resolved config = Inl e"
    by (simp add: filter_already_unfold)
next
  assume a: "option_of load_github_members config = Some b
        \<and> list_requested_reviewers api = Inr requested_reviewers"
  then show run: "filter_already_requested_reviewers api resolved config
          = Inr (filter (\<lambda>reviewer. reviewer \<notin> Str ` set requested_reviewers) resolved)"
    by (simp add: filter_already_unfold)
  then show "\<exists>remaining. filter_already_requested_reviewers api resolved config = Inr remaining
               \<and> set remaining = set resolved - Str ` set requested_reviewers"
    by auto
  from run show "filter_already_requested_reviewers api resolved config = Inr resolved
              \<longleftrightarrow> set resolved \<inter> Str ` set requested_reviewers = {}"
    by (auto simp: filter_id_conv)
next
  show "(\<forall>api revs author.
         fetch_author_belongs_to_github_team_members api revs config author = Inr (map Str revs))
       \<longleftrightarrow> option_of load_github_members config = None"
  proof
    assume all: "\<forall>api revs author.
         fetch_author_belongs_to_github_team_members api revs config author = Inr (map Str revs)"
    show "option_of load_github_members config = None"
    proof (rule ccontr)
      assume "option_of load_github_members config \<noteq> None"
      then obtain b where present: "option_of load_github_members config = Some b" by auto
      from all have "fetch_author_belongs_to_github_team_members failing_api
          [''alice'', ''alice''] config ''bob'' = Inr (map Str [''alice'', ''alice''])"
        by blast
      from fetch_author_present_distinct [OF present this] show False by simp
    qed
  next
    assume "option_of load_github_members config = None"
    then show "\<forall>api revs author.
         fetch_author_belongs_to_github_team_members api revs config author = Inr (map Str revs)"
      by (simp add: fetch_author_absent)
  qed
next
  show "(\<forall>api resolved. filter_already_requested_reviewers api resolved config = Inr resolved)
       \<longleftrightarrow> option_of load_github_members config = None"
  proof
    assume all: "\<forall>api resolved. filter_already_requested_reviewers api resolved config = Inr resolved"
    show "option_of load_github_members config = None"
    proof (rule ccontr)
      assume "option_of load_github_members config \<noteq> None"
      then obtain b where present: "option_of load_github_members config = Some b" by auto
      from all have "filter_already_requested_reviewers failing_api [Str ''alice''] config
          = Inr [Str ''alice'']"
        by blast
      with present show False
        by (simp add: filter_already_unfold list_requested_reviewers_def failing_api_def)
    qed
  next
    assume "option_of load_github_members config = None"
    then show "\<forall>api resolved. filter_already_requested_reviewers api resolved config = Inr resolved"
      by (simp add: filter_already_unfold)
  qed
qed

theorem live_reconciliation_trigger_witness:
  "option_of load_github_members (example_config\<lparr>options := None\<rparr>) = None
   \<and> fetch_author_belongs_to_github_team_members failing_api [''team:infra'', ''alice'', ''alice'']
         (example_config\<lparr>options := None\<rparr>) ''alice''
       = Inr [Str ''team:infra'', Str ''alice'', Str ''alice'']
   \<and> filter_already_requested_reviewers failing_api [Str ''alice'', Str ''erin'']
         (example_config\<lparr>options := None\<rparr>) = Inr [Str ''alice'', Str ''erin'']
   \<and> option_of load_github_members force_pick_config = Some False
   \<and> fetch_author_belongs_to_github_team_members failing_api [''team:infra'', ''erin'', ''erin'']
         force_pick_config ''alice'' = Inr [Str ''erin'', Str ''bob'']
   \<and> option_of load_github_members example_config = Some False
   \<and> \<not> startsWith ''erin'' ''team:''
   \<and> fetch_author_belongs_to_github_team_members failing_api [''erin'', ''erin''] example_config
         ''alice'' = Inr [Str ''erin'']
   \<and> list_requested_reviewers failing_api = Inr [''alice'']
   \<and> filter_already_requested_reviewers failing_api [Str ''alice'', Str ''erin''] example_config
       = Inr [Str ''erin'']
   \<and> list_requested_reviewers (failing_api\<lparr>listRequestedReviewers := Inl (Request_error None)\<rparr>)
       = Inl (Request_error None)
   \<and> filter_already_requested_reviewers
         (failing_api\<lparr>listRequestedReviewers := Inl (Request_error None)\<rparr>)
         [Str ''alice'', Str ''erin''] example_config = Inl (Request_error None)"
proof -
  have none: "option_of load_github_members (example_config\<lparr>options := None\<rparr>) = None"
    by (simp add: option_of_def)
  have req: "list_requested_reviewers failing_api = Inr [''alice'']"
    by (simp add: list_requested_reviewers_def failing_api_def)
  have err: "list_requested_reviewers
               (failing_api\<lparr>listRequestedReviewers := Inl (Request_error None)\<rparr>)
             = Inl (Request_error None)"
    by (simp add: list_requested_reviewers_def)
  have plain: "\<forall>r \<in> set [''erin'', ''erin'']. \<not> startsWith r ''team:''"
    by (simp add: startsWith_def)
  have slugs: "team_slugs [''team:infra'', ''erin'', ''erin''] = [''infra'']"
    by (simp add: team_slugs_def startsWith_def)
  from live_reconciliation_trigger
         [where config = "example_config\<lparr>options := None\<rparr>" and api = failing_api
            and revs = "[''team:infra'', ''alice'', ''alice'']" and author = "''alice''"
            and resolved = "[Str ''alice'', Str ''erin'']"] none
  have a: "fetch_author_belongs_to_github_team_members failing_api
             [''team:infra'', ''alice'', ''alice''] (example_config\<lparr>options := None\<rparr>) ''alice''
           = Inr [Str ''team:infra'', Str ''alice'', Str ''alice'']"
    and b: "filter_already_requested_reviewers failing_api [Str ''alice'', Str ''erin'']
              (example_config\<lparr>options := None\<rparr>) = Inr [Str ''alice'', Str ''erin'']"
    by simp_all
  from live_reconciliation_trigger
         [where config = force_pick_config and api = failing_api and b = False
            and revs = "[''team:infra'', ''erin'', ''erin'']" and author = "''alice''"]
       force_pick_load
  have c: "fetch_author_belongs_to_github_team_members failing_api
             [''team:infra'', ''erin'', ''erin''] force_pick_config ''alice''
           = Inr [Str ''erin'', Str ''bob'']"
    by (simp add: slugs roster_infra force_pick_force startsWith_def new_Set_def)
  note inst = live_reconciliation_trigger
         [where config = example_config and api = failing_api and b = False
            and revs = "[''erin'', ''erin'']" and author = "''alice''"
            and requested_reviewers = "[''alice'']" and resolved = "[Str ''alice'', Str ''erin'']"]
  from inst example_load plain
  have "fetch_author_belongs_to_github_team_members failing_api [''erin'', ''erin'']
          example_config ''alice'' = Inr (new_Set (map Str [''erin'', ''erin'']))"
    by blast
  then have d: "fetch_author_belongs_to_github_team_members failing_api [''erin'', ''erin'']
             example_config ''alice'' = Inr [Str ''erin'']"
    by (simp add: new_Set_def)
  from inst example_load req
  have "filter_already_requested_reviewers failing_api [Str ''alice'', Str ''erin'']
          example_config
        = Inr (filter (\<lambda>reviewer. reviewer \<notin> Str ` set [''alice''])
                 [Str ''alice'', Str ''erin''])"
    by blast
  then have e: "filter_already_requested_reviewers failing_api [Str ''alice'', Str ''erin'']
             example_config = Inr [Str ''erin'']"
    by simp
  from live_reconciliation_trigger
         [where config = example_config and b = False
            and api = "failing_api\<lparr>listRequestedReviewers := Inl (Request_error None)\<rparr>"
            and e = "Request_error None" and resolved = "[Str ''alice'', Str ''erin'']"]
       example_load err
  have f: "filter_already_requested_reviewers
         (failing_api\<lparr>listRequestedReviewers := Inl (Request_error None)\<rparr>)
         [Str ''alice'', Str ''erin''] example_config = Inl (Request_error None)"
    by simp
  have plain1: "\<not> startsWith ''erin'' ''team:''" by (simp add: startsWith_def)
  from none a b c d e f example_load force_pick_load req err plain1 show ?thesis by simp
qed

text \<open>
  That the input comes back unchanged only when the option is absent does not hold per
  input: with the option present, with the value false, two candidates that are neither
  teams nor already requested pass through both stages unchanged.
\<close>

theorem live_reconciliation_unchanged_counterexample:
  "option_of load_github_members example_config = Some False
   \<and> fetch_author_belongs_to_github_team_members failing_api [''erin'', ''zed''] example_config
         ''alice'' = Inr [Str ''erin'', Str ''zed'']
   \<and> filter_already_requested_reviewers failing_api [Str ''erin'', Str ''zed''] example_config
       = Inr [Str ''erin'', Str ''zed'']"
proof -
  have "fetch_author_belongs_to_github_team_members failing_api [''erin'', ''zed''] example_config
         ''alice'' = Inr [Str ''erin'', Str ''zed'']"
    by code_simp
  moreover
  have "filter_already_requested_reviewers failing_api [Str ''erin'', Str ''zed''] example_config
       = Inr [Str ''erin'', Str ''zed'']"
    by code_simp
  ultimately show ?thesis by (simp add: example_load)
qed


text \<open>
  C2. What \<^verbatim>\<open>assign_reviewers\<close> receives has no duplicates: the exclusion pass returns a
  duplicate-free list, each of the two asynchronous stages maps a duplicate-free list to
  a duplicate-free list, and so does sampling in between.
\<close>

theorem reviewers_to_assign_distinct:
  "distinct (filter_excluded_reviewers candidates config)
   \<and> (distinct revs
        \<and> fetch_author_belongs_to_github_team_members api revs config author = Inr resolved
        \<longrightarrow> distinct resolved)
   \<and> (distinct resolved \<and> filter_already_requested_reviewers api resolved config = Inr remaining
        \<longrightarrow> distinct remaining)
   \<and> (reviewers_to_assign rng minimatch api config author changed_files = Inr final
        \<longrightarrow> distinct final)"
proof (intro conjI impI)
  show "distinct (filter_excluded_reviewers candidates config)"
    by (rule distinct_filter_excluded_reviewers)
next
  assume "distinct revs
        \<and> fetch_author_belongs_to_github_team_members api revs config author = Inr resolved"
  then show "distinct resolved" by (blast intro: fetch_author_distinct)
next
  assume "distinct resolved
        \<and> filter_already_requested_reviewers api resolved config = Inr remaining"
  then show "distinct remaining" by (blast intro: filter_already_distinct)
next
  assume run: "reviewers_to_assign rng minimatch api config author changed_files = Inr final"
  define picked where "picked =
    randomly_pick_reviewers rng (candidate_reviewers minimatch config author changed_files) config"
  have "distinct (candidate_reviewers minimatch config author changed_files)"
    by (simp add: candidate_reviewers_def Let_def distinct_filter_excluded_reviewers)
  then have picked: "distinct picked"
    unfolding picked_def by (rule distinct_randomly_pick)
  from run obtain res where
    res: "fetch_author_belongs_to_github_team_members api picked config author = Inr res"
    and fin: "filter_already_requested_reviewers api res config = Inr final"
    by (auto simp: reviewers_to_assign_def Let_def picked_def split: sum.splits)
  from fetch_author_distinct [OF picked res] have "distinct res" .
  from filter_already_distinct [OF this fin] show "distinct final" .
qed

lemma example_run:
  "reviewers_to_assign (\<lambda>i. 7) (\<lambda>file pattern. True) failing_api example_config ''alice''
     [''README.md''] = Inr [Str ''frank'', Str ''erin'']"
  by code_simp

theorem reviewers_to_assign_distinct_witness:
  "distinct (filter_excluded_reviewers [''dan'', ''dan'', ''erin''] example_config)
   \<and> distinct [''team:infra'', ''alice'']
   \<and> fetch_author_belongs_to_github_team_members failing_api [''team:infra'', ''alice'']
         example_config ''alice'' = Inr [Str ''alice'']
   \<and> distinct [Str ''alice'', Str ''erin'']
   \<and> filter_already_requested_reviewers failing_api [Str ''alice'', Str ''erin''] example_config
       = Inr [Str ''erin'']
   \<and> reviewers_to_assign (\<lambda>i. 7) (\<lambda>file pattern. True) failing_api example_config ''alice''
         [''README.md''] = Inr [Str ''frank'', Str ''erin'']
   \<and> distinct [Str ''frank'', Str ''erin'']"
proof -
  have 1: "fetch_author_belongs_to_github_team_members failing_api [''team:infra'', ''alice'']
             example_config ''alice'' = Inr [Str ''alice'']"
    by code_simp
  have 2: "filter_already_requested_reviewers failing_api [Str ''alice'', Str ''erin'']
             example_config = Inr [Str ''erin'']"
    by code_simp
  have 3: "distinct [''team:infra'', ''alice'']" by simp
  have 4: "distinct [Str ''alice'', Str ''erin'']" by simp
  from reviewers_to_assign_distinct
         [where candidates = "[''dan'', ''dan'', ''erin'']" and config = example_config
            and revs = "[''team:infra'', ''alice'']" and api = failing_api
            and author = "''alice''" and resolved = "[Str ''alice'', Str ''erin'']"
            and remaining = "[Str ''erin'']" and rng = "\<lambda>i. 7"
            and minimatch = "\<lambda>file pattern. True" and changed_files = "[''README.md'']"
            and final = "[Str ''frank'', Str ''erin'']"]
       1 2 3 4 example_run
  show ?thesis by simp
qed

end
